theory Spec2Isabelle
  imports Main "HOL-Library.Word" "HOL-Library.Multiset"
begin

unbundle bit_operations_syntax

section \<open>The hash function of cache.cc\<close>

text \<open>
  A byte buffer is a list of bytes. \<open>Hash data n seed\<close> of the source reads the \<open>n\<close>
  bytes at \<open>data\<close>; the model takes those bytes as a list, so \<open>n\<close> is its length.
  The source reads the trailing bytes through plain \<open>char\<close>, whose signedness the
  compiler chooses: the flag \<open>sg\<close> says whether \<open>char\<close> is signed.
\<close>

type_synonym byte = "8 word"
type_synonym uint32_t = "32 word"
type_synonym uint64_t = "64 word"
type_synonym size_t = "64 word"

definition Hash_m :: uint32_t where
  "Hash_m = 0xc6a4a793"

definition Hash_r :: nat where
  "Hash_r = 24"

text \<open>The four bytes copied by \<open>memcpy\<close> into a \<open>uint32_t\<close>, on a little-endian machine.\<close>

definition DecodeFixed32 :: "byte \<Rightarrow> byte \<Rightarrow> byte \<Rightarrow> byte \<Rightarrow> uint32_t" where
  "DecodeFixed32 b0 b1 b2 b3 =
     ucast b0 OR push_bit 8 (ucast b1) OR push_bit 16 (ucast b2) OR push_bit 24 (ucast b3)"

text \<open>The promotion of a \<open>char\<close> to \<open>int\<close>, read as 32 bits.\<close>

definition char_int :: "bool \<Rightarrow> byte \<Rightarrow> uint32_t" where
  "char_int sg c = (if sg then scast c else ucast c)"

text \<open>The \<open>while (data + 4 <= limit)\<close> loop: returns the bytes left over and the state.\<close>

fun Hash_loop :: "byte list \<Rightarrow> uint32_t \<Rightarrow> byte list \<times> uint32_t" where
  "Hash_loop (b0 # b1 # b2 # b3 # data) h =
     (let w = DecodeFixed32 b0 b1 b2 b3;
          h1 = h + w;
          h2 = h1 * Hash_m;
          h3 = h2 XOR drop_bit 16 h2
      in Hash_loop data h3)"
| "Hash_loop data h = (data, h)"

text \<open>The \<open>switch (limit - data)\<close> with its fall-through cases 3, 2, 1.\<close>

definition Hash_switch :: "bool \<Rightarrow> byte list \<Rightarrow> uint32_t \<Rightarrow> uint32_t" where
  "Hash_switch sg data h =
     (let n = length data;
          h1 = (if n = 3 then h + push_bit 16 (char_int sg (data ! 2)) else h);
          h2 = (if n = 3 \<or> n = 2 then h1 + push_bit 8 (char_int sg (data ! 1)) else h1)
      in if n = 3 \<or> n = 2 \<or> n = 1
         then (let h3 = h2 + char_int sg (data ! 0);
                   h4 = h3 * Hash_m
               in h4 XOR drop_bit Hash_r h4)
         else h2)"

definition Hash :: "bool \<Rightarrow> byte list \<Rightarrow> uint32_t \<Rightarrow> uint32_t" where
  "Hash sg data seed =
     (let n = (word_of_nat (length data) :: size_t);
          h = (ucast (ucast seed XOR n * ucast Hash_m) :: uint32_t)
      in case Hash_loop data h of (rest, h') \<Rightarrow> Hash_switch sg rest h')"

text \<open>
  The hash as the specification words it, for comparison with \<open>Hash\<close>: start from
  \<open>seed XOR (length * m)\<close>; for each 4-byte word add the word, multiply by \<open>m\<close> and
  XOR the state with itself shifted right by \<open>r\<close>; then accumulate the trailing bytes,
  multiply, and XOR with the state shifted right by 24. The per-word shift \<open>r\<close> is a
  parameter (the specification says 24), and \<open>fin\<close> says whether the final step also
  runs when no byte trails.
\<close>

fun words_of :: "byte list \<Rightarrow> uint32_t list" where
  "words_of (b0 # b1 # b2 # b3 # data) = DecodeFixed32 b0 b1 b2 b3 # words_of data"
| "words_of data = []"

definition mix_word :: "nat \<Rightarrow> uint32_t \<Rightarrow> uint32_t \<Rightarrow> uint32_t" where
  "mix_word r h w = (let x = (h + w) * Hash_m in x XOR drop_bit r x)"

fun tail_sum :: "bool \<Rightarrow> nat \<Rightarrow> byte list \<Rightarrow> uint32_t" where
  "tail_sum sg i [] = 0"
| "tail_sum sg i (c # cs) = push_bit (8 * i) (char_int sg c) + tail_sum sg (Suc i) cs"

definition Hash_spec :: "nat \<Rightarrow> bool \<Rightarrow> bool \<Rightarrow> byte list \<Rightarrow> uint32_t \<Rightarrow> uint32_t" where
  "Hash_spec r fin sg data seed =
     (let h0 = seed XOR (word_of_nat (length data) * Hash_m);
          h1 = foldl (mix_word r) h0 (words_of data);
          trailing = drop (4 * (length data div 4)) data
      in if trailing = [] \<and> \<not> fin then h1
         else (let x = (h1 + tail_sum sg 0 trailing) * Hash_m in x XOR drop_bit 24 x))"


section \<open>C strings\<close>

text \<open>
  A \<open>const char*\<close> is modelled by the bytes of the buffer it points to; the terminating
  NUL is the first zero byte, or the end of the list when the list holds none.
  \<open>strcpy\<close> gives the bytes that end up in the destination before its terminator.
\<close>

definition strlen :: "byte list \<Rightarrow> nat" where
  "strlen s = length (takeWhile (\<lambda>c. c \<noteq> 0) s)"

definition strcpy :: "byte list \<Rightarrow> byte list" where
  "strcpy s = takeWhile (\<lambda>c. c \<noteq> 0) s"

fun strcmp :: "byte list \<Rightarrow> byte list \<Rightarrow> int" where
  "strcmp [] [] = 0"
| "strcmp [] (b # bs) = (if b = 0 then 0 else - 1)"
| "strcmp (a # as) [] = (if a = 0 then 0 else 1)"
| "strcmp (a # as) (b # bs) =
     (if a \<noteq> b then (if a < b then - 1 else 1)
      else if a = 0 then 0
      else strcmp as bs)"

section \<open>Cache entries and the memory they live in\<close>

text \<open>
  \<open>LRUHandle\<close> is the struct of the source without its three link fields: the hash
  chains (\<open>next_hash\<close>) and the circular recency list (\<open>next\<close>, \<open>prev\<close>) are
  modelled by the lists of addresses they link. An address is what \<open>malloc\<close>
  returned; \<open>void*\<close> values and function pointers are opaque numbers.
  A member the source names with a trailing underscore (\<open>length_\<close>, \<open>usage_\<close>)
  carries a letter after it here, and \<open>value\<close> is \<open>value_h\<close>.
  Every operation returns \<open>None\<close> when the call does not return normally: an
  \<open>assert\<close> fails, freed or unlinked memory is touched, or a loop runs forever.
\<close>

type_synonym addr = nat
type_synonym ptr = nat

record LRUHandle =
  value_h :: ptr
  deleter :: ptr
  charge :: size_t
  key_length :: size_t
  refs :: uint32_t
  hash :: uint32_t
  key_data :: "byte list"

type_synonym memory = "addr \<Rightarrow> LRUHandle option"

section \<open>HandleTable\<close>

record HandleTable =
  length_t :: uint32_t
  elems_t :: uint32_t
  list_t :: "addr list list"

text \<open>
  \<open>FindPointer\<close> returns a pointer to a slot: the bucket's head slot or the
  \<open>next_hash\<close> field of a chain member. The model names the slot by the bucket index
  and the position in the chain; position \<open>length chain\<close> is the trailing slot.
\<close>

fun FindPointer_walk :: "memory \<Rightarrow> byte list \<Rightarrow> uint32_t \<Rightarrow> addr list \<Rightarrow> nat option" where
  "FindPointer_walk m key h [] = Some 0"
| "FindPointer_walk m key h (p # chain) =
     (case m p of
        None \<Rightarrow> None
      | Some e \<Rightarrow>
          if hash e \<noteq> h \<or> strcmp key (key_data e) \<noteq> 0
          then map_option Suc (FindPointer_walk m key h chain)
          else Some 0)"

definition FindPointer :: "memory \<Rightarrow> HandleTable \<Rightarrow> byte list \<Rightarrow> uint32_t \<Rightarrow> (nat \<times> nat) option" where
  "FindPointer m t key h =
     (let b = unat (h AND (length_t t - 1))
      in if b < length (list_t t)
         then map_option (Pair b) (FindPointer_walk m key h (list_t t ! b))
         else None)"

text \<open>\<open>*ptr\<close>: the entry a slot points to, \<open>None\<close> for \<open>NULL\<close>.\<close>

definition slot_get :: "HandleTable \<Rightarrow> nat \<times> nat \<Rightarrow> addr option" where
  "slot_get t sl =
     (case sl of (b, i) \<Rightarrow>
        if i < length (list_t t ! b) then Some (list_t t ! b ! i) else None)"

definition HandleTable_Lookup :: "memory \<Rightarrow> HandleTable \<Rightarrow> byte list \<Rightarrow> uint32_t \<Rightarrow> addr option option" where
  "HandleTable_Lookup m t key h =
     (case FindPointer m t key h of None \<Rightarrow> None | Some sl \<Rightarrow> Some (slot_get t sl))"

partial_function (option) Resize_new_length :: "uint32_t \<Rightarrow> uint32_t \<Rightarrow> uint32_t option" where
  "Resize_new_length new_length elems =
     (if new_length < elems then Resize_new_length (new_length * 2) elems
      else Some new_length)"

fun Resize_chain ::
  "memory \<Rightarrow> uint32_t \<Rightarrow> addr list \<Rightarrow> addr list list \<times> uint32_t \<Rightarrow> (addr list list \<times> uint32_t) option" where
  "Resize_chain m new_length [] acc = Some acc"
| "Resize_chain m new_length (h # next) (new_list, cnt) =
     (case m h of
        None \<Rightarrow> None
      | Some e \<Rightarrow>
          (let i = unat (hash e AND (new_length - 1))
           in if i < length new_list
              then Resize_chain m new_length next (new_list[i := h # new_list ! i], cnt + 1)
              else None))"

fun Resize_buckets ::
  "memory \<Rightarrow> uint32_t \<Rightarrow> addr list list \<Rightarrow> addr list list \<times> uint32_t \<Rightarrow> (addr list list \<times> uint32_t) option" where
  "Resize_buckets m new_length [] acc = Some acc"
| "Resize_buckets m new_length (chain # rest) acc =
     (case Resize_chain m new_length chain acc of
        None \<Rightarrow> None
      | Some acc' \<Rightarrow> Resize_buckets m new_length rest acc')"

definition HandleTable_Resize :: "memory \<Rightarrow> HandleTable \<Rightarrow> HandleTable option" where
  "HandleTable_Resize m t =
     (case Resize_new_length 4 (elems_t t) of
        None \<Rightarrow> None
      | Some new_length \<Rightarrow>
          (case Resize_buckets m new_length (take (unat (length_t t)) (list_t t))
                  (replicate (unat new_length) [], 0) of
             None \<Rightarrow> None
           | Some (new_list, cnt) \<Rightarrow>
               if elems_t t = cnt
               then Some (t\<lparr>list_t := new_list, length_t := new_length\<rparr>)
               else None))"

definition HandleTable_new :: "HandleTable option" where
  "HandleTable_new = HandleTable_Resize (\<lambda>a. None) \<lparr>length_t = 0, elems_t = 0, list_t = []\<rparr>"

text \<open>
  \<open>h->next_hash = (old == NULL ? NULL : old->next_hash); *ptr = h\<close> puts \<open>h\<close> in the
  slot: in the place of \<open>old\<close>, or after the last chain member.
\<close>

definition slot_put :: "HandleTable \<Rightarrow> nat \<times> nat \<Rightarrow> addr \<Rightarrow> HandleTable" where
  "slot_put t sl h =
     (case sl of (b, i) \<Rightarrow>
        let chain = list_t t ! b
        in t\<lparr>list_t := (list_t t)[b := (if i < length chain then chain[i := h] else chain @ [h])]\<rparr>)"

definition HandleTable_Insert :: "memory \<Rightarrow> HandleTable \<Rightarrow> addr \<Rightarrow> (addr option \<times> HandleTable) option" where
  "HandleTable_Insert m t h =
     (case m h of
        None \<Rightarrow> None
      | Some e \<Rightarrow>
          (case FindPointer m t (key_data e) (hash e) of
             None \<Rightarrow> None
           | Some sl \<Rightarrow>
               (let old = slot_get t sl;
                    t1 = slot_put t sl h
                in if old = None
                   then (let t2 = t1\<lparr>elems_t := elems_t t1 + 1\<rparr>
                         in if elems_t t2 > length_t t2
                            then map_option (Pair old) (HandleTable_Resize m t2)
                            else Some (old, t2))
                   else Some (old, t1))))"

text \<open>\<open>*ptr = result->next_hash\<close> takes the entry at the slot out of its chain.\<close>

definition slot_drop :: "HandleTable \<Rightarrow> nat \<times> nat \<Rightarrow> HandleTable" where
  "slot_drop t sl =
     (case sl of (b, i) \<Rightarrow>
        let chain = list_t t ! b
        in t\<lparr>list_t := (list_t t)[b := take i chain @ drop (Suc i) chain]\<rparr>)"

definition HandleTable_Remove :: "memory \<Rightarrow> HandleTable \<Rightarrow> byte list \<Rightarrow> uint32_t \<Rightarrow> (addr option \<times> HandleTable) option" where
  "HandleTable_Remove m t key h =
     (case FindPointer m t key h of
        None \<Rightarrow> None
      | Some sl \<Rightarrow>
          (let result = slot_get t sl
           in if result \<noteq> None
              then (let t1 = slot_drop t sl in Some (result, t1\<lparr>elems_t := elems_t t1 - 1\<rparr>))
              else Some (result, t)))"


section \<open>LRUCacheImpl: one shard\<close>

text \<open>
  Beside the members of the class, the state of a shard holds the memory of its entries
  (\<open>mem\<close>; \<open>brk\<close> is the address the next \<open>malloc\<close> returns, and \<open>free\<close>
  empties an address) and the calls made to the deleters (\<open>deleted\<close>, oldest first:
  the entry whose key pointer was passed, the deleter, the key bytes and the value).
  \<open>lru_c\<close> lists the recency list from \<open>lru_.next\<close> (oldest) to \<open>lru_.prev\<close> (newest).
\<close>

record LRUCacheImpl =
  capacity_c :: size_t
  usage_c :: size_t
  lru_c :: "addr list"
  table_c :: HandleTable
  mem :: memory
  brk :: addr
  deleted :: "(addr \<times> ptr \<times> byte list \<times> ptr) list"

definition LRUCacheImpl_new :: "size_t \<Rightarrow> LRUCacheImpl option" where
  \<comment> \<open>the constructor, then \<open>SetCapacity\<close>\<close>
  "LRUCacheImpl_new capacity =
     (case HandleTable_new of
        None \<Rightarrow> None
      | Some t \<Rightarrow>
          Some \<lparr>capacity_c = capacity, usage_c = 0, lru_c = [], table_c = t,
                mem = (\<lambda>a. None), brk = 0, deleted = []\<rparr>)"

definition SetCapacity :: "size_t \<Rightarrow> LRUCacheImpl \<Rightarrow> LRUCacheImpl" where
  "SetCapacity capacity s = s\<lparr>capacity_c := capacity\<rparr>"

definition Unref :: "addr \<Rightarrow> LRUCacheImpl \<Rightarrow> LRUCacheImpl option" where
  "Unref e s =
     (case mem s e of
        None \<Rightarrow> None
      | Some x \<Rightarrow>
          if \<not> refs x > 0 then None
          else (let x' = x\<lparr>refs := refs x - 1\<rparr>
                in if refs x' \<le> 0
                   then Some (s\<lparr>usage_c := usage_c s - charge x',
                                deleted := deleted s @ [(e, deleter x', key_data x', value_h x')],
                                mem := (mem s)(e := None)\<rparr>)
                   else Some (s\<lparr>mem := (mem s)(e \<mapsto> x')\<rparr>)))"

text \<open>Unlinking an entry that is not in the list would write through stale links.\<close>

definition LRU_Remove :: "addr \<Rightarrow> LRUCacheImpl \<Rightarrow> LRUCacheImpl option" where
  "LRU_Remove e s =
     (if e \<in> set (lru_c s) then Some (s\<lparr>lru_c := remove1 e (lru_c s)\<rparr>) else None)"

definition LRU_Append :: "addr \<Rightarrow> LRUCacheImpl \<Rightarrow> LRUCacheImpl" where
  "LRU_Append e s = s\<lparr>lru_c := lru_c s @ [e]\<rparr>"

definition LRUCacheImpl_Lookup ::
  "byte list \<Rightarrow> uint32_t \<Rightarrow> LRUCacheImpl \<Rightarrow> (addr option \<times> LRUCacheImpl) option" where
  "LRUCacheImpl_Lookup key h s =
     (case HandleTable_Lookup (mem s) (table_c s) key h of
        None \<Rightarrow> None
      | Some None \<Rightarrow> Some (None, s)
      | Some (Some e) \<Rightarrow>
          (case mem s e of
             None \<Rightarrow> None
           | Some x \<Rightarrow>
               (case LRU_Remove e (s\<lparr>mem := (mem s)(e \<mapsto> x\<lparr>refs := refs x + 1\<rparr>)\<rparr>) of
                  None \<Rightarrow> None
                | Some s2 \<Rightarrow> Some (Some e, LRU_Append e s2))))"

definition LRUCacheImpl_Release :: "addr \<Rightarrow> LRUCacheImpl \<Rightarrow> LRUCacheImpl option" where
  "LRUCacheImpl_Release handle s = Unref handle s"

text \<open>The body of the eviction loop of \<open>Insert\<close>.\<close>

definition evict_oldest :: "LRUCacheImpl \<Rightarrow> LRUCacheImpl option" where
  "evict_oldest s =
     (case lru_c s of
        [] \<Rightarrow> None
      | old # _ \<Rightarrow>
          (case LRU_Remove old s of
             None \<Rightarrow> None
           | Some s1 \<Rightarrow>
               (case mem s1 old of
                  None \<Rightarrow> None
                | Some x \<Rightarrow>
                    (case HandleTable_Remove (mem s1) (table_c s1) (key_data x) (hash x) of
                       None \<Rightarrow> None
                     | Some (r, t) \<Rightarrow> Unref old (s1\<lparr>table_c := t\<rparr>)))))"

lemma Unref_lru_c: "Unref e s = Some s' \<Longrightarrow> lru_c s' = lru_c s"
  by (auto simp: Unref_def Let_def split: option.splits if_splits)

lemma evict_oldest_lru_c: "evict_oldest s = Some s' \<Longrightarrow> lru_c s' = tl (lru_c s) \<and> lru_c s \<noteq> []"
  by (auto simp: evict_oldest_def LRU_Remove_def split: list.splits option.splits dest!: Unref_lru_c)

lemma evict_oldest_shrinks:
  "evict_oldest s = Some s' \<Longrightarrow> length (lru_c s') < length (lru_c s)"
  by (auto dest!: evict_oldest_lru_c)

function Insert_evict :: "LRUCacheImpl \<Rightarrow> LRUCacheImpl option" where
  "Insert_evict s =
     (if usage_c s > capacity_c s \<and> lru_c s \<noteq> []
      then (case evict_oldest s of None \<Rightarrow> None | Some s' \<Rightarrow> Insert_evict s')
      else Some s)"
  by pat_completeness auto
termination
  by (relation "measure (\<lambda>s. length (lru_c s))") (auto dest: evict_oldest_shrinks)

definition LRUCacheImpl_Insert ::
  "byte list \<Rightarrow> uint32_t \<Rightarrow> ptr \<Rightarrow> size_t \<Rightarrow> ptr \<Rightarrow> LRUCacheImpl \<Rightarrow> (addr \<times> LRUCacheImpl) option" where
  "LRUCacheImpl_Insert key h val chg del s =
     (let keyLen = (word_of_nat (strlen key) :: 32 word);
          e = brk s;
          x = \<lparr>value_h = val, deleter = del, charge = chg, key_length = scast keyLen,
               refs = 2, hash = h, key_data = strcpy key\<rparr>;
          s1 = s\<lparr>mem := (mem s)(e \<mapsto> x), brk := Suc e\<rparr>;
          s2 = LRU_Append e s1;
          s3 = s2\<lparr>usage_c := usage_c s2 + chg\<rparr>
      in case HandleTable_Insert (mem s3) (table_c s3) e of
           None \<Rightarrow> None
         | Some (old, t) \<Rightarrow>
             (case (case old of
                      None \<Rightarrow> Some (s3\<lparr>table_c := t\<rparr>)
                    | Some old_e \<Rightarrow>
                        (case LRU_Remove old_e (s3\<lparr>table_c := t\<rparr>) of
                           None \<Rightarrow> None
                         | Some s4 \<Rightarrow> Unref old_e s4)) of
                None \<Rightarrow> None
              | Some s5 \<Rightarrow>
                  (case Insert_evict s5 of
                     None \<Rightarrow> None
                   | Some s6 \<Rightarrow> Some (e, s6))))"

definition LRUCacheImpl_Erase :: "byte list \<Rightarrow> uint32_t \<Rightarrow> LRUCacheImpl \<Rightarrow> LRUCacheImpl option" where
  "LRUCacheImpl_Erase key h s =
     (case HandleTable_Remove (mem s) (table_c s) key h of
        None \<Rightarrow> None
      | Some (None, t) \<Rightarrow> Some (s\<lparr>table_c := t\<rparr>)
      | Some (Some e, t) \<Rightarrow>
          (case LRU_Remove e (s\<lparr>table_c := t\<rparr>) of
             None \<Rightarrow> None
           | Some s1 \<Rightarrow> Unref e s1))"

section \<open>ShardedLRUCache\<close>

definition kNumShardBits :: nat where
  "kNumShardBits = 4"

definition kNumShards :: nat where
  "kNumShards = 2 ^ kNumShardBits"

record ShardedLRUCache =
  shard_s :: "LRUCacheImpl list"
  last_id_s :: uint64_t

definition HashSlice :: "bool \<Rightarrow> byte list \<Rightarrow> uint32_t" where
  "HashSlice sg s = Hash sg (take (strlen s) s) 0"

definition Shard :: "uint32_t \<Rightarrow> nat" where
  "Shard h = unat (drop_bit (32 - kNumShardBits) h)"

definition ShardedLRUCache_new :: "size_t \<Rightarrow> ShardedLRUCache option" where
  "ShardedLRUCache_new capacity =
     (let per_shard = (capacity + (word_of_nat kNumShards - 1)) div word_of_nat kNumShards
      in case LRUCacheImpl_new per_shard of
           None \<Rightarrow> None
         | Some sh \<Rightarrow> Some \<lparr>shard_s = replicate kNumShards sh, last_id_s = 0\<rparr>)"

text \<open>
  A handle of the sharded cache is the address of its entry together with the shard
  whose memory holds it.
\<close>

definition ShardedLRUCache_Insert ::
  "bool \<Rightarrow> byte list \<Rightarrow> ptr \<Rightarrow> size_t \<Rightarrow> ptr \<Rightarrow> ShardedLRUCache \<Rightarrow> ((nat \<times> addr) \<times> ShardedLRUCache) option" where
  "ShardedLRUCache_Insert sg key val chg del c =
     (let h = HashSlice sg key; i = Shard h
      in case LRUCacheImpl_Insert key h val chg del (shard_s c ! i) of
           None \<Rightarrow> None
         | Some (e, sh) \<Rightarrow> Some ((i, e), c\<lparr>shard_s := (shard_s c)[i := sh]\<rparr>))"

definition ShardedLRUCache_Lookup ::
  "bool \<Rightarrow> byte list \<Rightarrow> ShardedLRUCache \<Rightarrow> ((nat \<times> addr) option \<times> ShardedLRUCache) option" where
  "ShardedLRUCache_Lookup sg key c =
     (let h = HashSlice sg key; i = Shard h
      in case LRUCacheImpl_Lookup key h (shard_s c ! i) of
           None \<Rightarrow> None
         | Some (r, sh) \<Rightarrow> Some (map_option (Pair i) r, c\<lparr>shard_s := (shard_s c)[i := sh]\<rparr>))"

definition ShardedLRUCache_Erase :: "bool \<Rightarrow> byte list \<Rightarrow> ShardedLRUCache \<Rightarrow> ShardedLRUCache option" where
  "ShardedLRUCache_Erase sg key c =
     (let h = HashSlice sg key; i = Shard h
      in case LRUCacheImpl_Erase key h (shard_s c ! i) of
           None \<Rightarrow> None
         | Some sh \<Rightarrow> Some (c\<lparr>shard_s := (shard_s c)[i := sh]\<rparr>))"

definition NewId :: "ShardedLRUCache \<Rightarrow> uint64_t \<times> ShardedLRUCache" where
  "NewId c = (let c' = c\<lparr>last_id_s := last_id_s c + 1\<rparr> in (last_id_s c', c'))"

text \<open>\<open>n\<close> calls of \<open>NewId\<close> in a row, with the values they return, first call first.\<close>

fun NewId_calls :: "nat \<Rightarrow> ShardedLRUCache \<Rightarrow> uint64_t list \<times> ShardedLRUCache" where
  "NewId_calls 0 c = ([], c)"
| "NewId_calls (Suc n) c =
     (case NewId c of (x, c') \<Rightarrow> case NewId_calls n c' of (xs, c'') \<Rightarrow> (x # xs, c''))"


section \<open>Invariants of the table and of a shard\<close>

definition table_entries :: "HandleTable \<Rightarrow> addr list" where
  "table_entries t = concat (list_t t)"

text \<open>The test of \<open>FindPointer\<close> on one chain member: same hash, and \<open>strcmp\<close> gives 0.\<close>

definition key_match :: "memory \<Rightarrow> byte list \<Rightarrow> uint32_t \<Rightarrow> addr \<Rightarrow> bool" where
  "key_match m key h a =
     (case m a of None \<Rightarrow> False | Some e \<Rightarrow> hash e = h \<and> strcmp key (key_data e) = 0)"

definition same_key :: "memory \<Rightarrow> addr \<Rightarrow> addr \<Rightarrow> bool" where
  "same_key m a a' =
     (case m a of
        None \<Rightarrow> False
      | Some e \<Rightarrow> (case m a' of None \<Rightarrow> False
                   | Some e' \<Rightarrow> hash e = hash e' \<and> key_data e = key_data e'))"

text \<open>
  The members of a table are sound: no entry is chained twice, every member is allocated
  and stores a key without a NUL byte, and no two members have the same hash and key.
\<close>

definition entries_ok :: "memory \<Rightarrow> addr list \<Rightarrow> bool" where
  "entries_ok m es \<longleftrightarrow>
     distinct es \<and>
     (\<forall>a \<in> set es. \<exists>e. m a = Some e \<and> 0 \<notin> set (key_data e)) \<and>
     (\<forall>a \<in> set es. \<forall>a' \<in> set es. same_key m a a' \<longrightarrow> a = a')"

text \<open>
  The bucket array is sound: it has \<open>length_\<close> buckets, a power of two from 4 to
  \<open>2 ^ 31\<close>; \<open>elems_\<close> counts the members; and every member sits in the bucket that
  its hash selects.
\<close>

definition buckets_ok :: "memory \<Rightarrow> HandleTable \<Rightarrow> bool" where
  "buckets_ok m t \<longleftrightarrow>
     length_t t \<in> (\<lambda>k. 2 ^ k) ` {2..<32} \<and>
     length (list_t t) = unat (length_t t) \<and>
     elems_t t = word_of_nat (length (table_entries t)) \<and>
     (\<forall>b < length (list_t t). \<forall>a \<in> set (list_t t ! b).
        \<exists>e. m a = Some e \<and> unat (hash e AND (length_t t - 1)) = b)"

text \<open>A well-formed table also has no more members than buckets.\<close>

definition HandleTable_inv :: "memory \<Rightarrow> HandleTable \<Rightarrow> bool" where
  "HandleTable_inv m t \<longleftrightarrow>
     buckets_ok m t \<and> entries_ok m (table_entries t) \<and>
     length (table_entries t) \<le> unat (length_t t)"

text \<open>
  What a search of the table for a key and hash may answer: a member that passes the test
  of \<open>FindPointer\<close>, or nothing when no member passes it.
\<close>

definition finds :: "memory \<Rightarrow> HandleTable \<Rightarrow> byte list \<Rightarrow> uint32_t \<Rightarrow> addr option \<Rightarrow> bool" where
  "finds m t key h r =
     (case r of
        None \<Rightarrow> \<forall>a \<in> set (table_entries t). \<not> key_match m key h a
      | Some a \<Rightarrow> a \<in> set (table_entries t) \<and> key_match m key h a)"

text \<open>The sum of the charges of the entries allocated and not yet freed.\<close>

definition charge_at :: "memory \<Rightarrow> addr \<Rightarrow> size_t" where
  "charge_at m a = (case m a of None \<Rightarrow> 0 | Some e \<Rightarrow> charge e)"

definition live_charge :: "LRUCacheImpl \<Rightarrow> size_t" where
  "live_charge s = (\<Sum>a\<leftarrow>[0..<brk s]. charge_at (mem s) a)"

text \<open>
  A shard is well formed: its table is; the recency list holds exactly the members of the
  table, each once; nothing is allocated at or above \<open>brk\<close>; no allocated entry has a
  reference count of 0; and \<open>usage_\<close> is the sum of the charges of the entries not yet
  freed.
\<close>

definition LRUCacheImpl_inv :: "LRUCacheImpl \<Rightarrow> bool" where
  "LRUCacheImpl_inv s \<longleftrightarrow>
     HandleTable_inv (mem s) (table_c s) \<and>
     distinct (lru_c s) \<and>
     set (lru_c s) = set (table_entries (table_c s)) \<and>
     (\<forall>a. brk s \<le> a \<longrightarrow> mem s a = None) \<and>
     (\<forall>a e. mem s a = Some e \<longrightarrow> refs e \<noteq> 0) \<and>
     usage_c s = live_charge s"

text \<open>
  The record of deleter calls is sound: no entry appears in it twice, and the entries in
  it are exactly the addresses that were allocated and have been freed.
\<close>

definition deleted_ok :: "LRUCacheImpl \<Rightarrow> bool" where
  "deleted_ok s \<longleftrightarrow>
     distinct (map fst (deleted s)) \<and>
     (\<forall>a. a \<in> fst ` set (deleted s) \<longleftrightarrow> a < brk s \<and> mem s a = None)"

section \<open>A caller of one shard\<close>

text \<open>
  The protocol of the interface: every handle returned by \<open>Insert\<close> or \<open>Lookup\<close> is
  released exactly once. A caller holds the handles it has not released yet (\<open>held\<close>,
  a handle once for each time it was returned); \<open>Release_op i\<close> releases the \<open>i\<close>-th of
  them, and does nothing when the caller holds fewer. What the caller observed is
  recorded in \<open>events\<close>: for an \<open>Insert\<close> the value and whether the new entry is still
  in the recency list when the call returns, for a \<open>Lookup\<close> the value of the entry
  found (through \<open>Value\<close>) or a miss.
\<close>

datatype op =
    Insert_op "byte list" uint32_t ptr size_t ptr
  | Lookup_op "byte list" uint32_t
  | Release_op nat
  | Erase_op "byte list" uint32_t

datatype event = Inserted ptr bool | Looked "ptr option" | Released | Erased

record client =
  shard :: LRUCacheImpl
  held :: "addr list"
  events :: "event list"

fun client_step :: "op \<Rightarrow> client \<Rightarrow> client option" where
  "client_step (Insert_op key h val chg del) cl =
     (case LRUCacheImpl_Insert key h val chg del (shard cl) of
        None \<Rightarrow> None
      | Some (e, s') \<Rightarrow>
          Some \<lparr>shard = s', held = held cl @ [e],
                events = events cl @ [Inserted val (e \<in> set (lru_c s'))]\<rparr>)"
| "client_step (Lookup_op key h) cl =
     (case LRUCacheImpl_Lookup key h (shard cl) of
        None \<Rightarrow> None
      | Some (None, s') \<Rightarrow>
          Some \<lparr>shard = s', held = held cl, events = events cl @ [Looked None]\<rparr>
      | Some (Some e, s') \<Rightarrow>
          (case mem s' e of
             None \<Rightarrow> None
           | Some x \<Rightarrow>
               Some \<lparr>shard = s', held = held cl @ [e],
                     events = events cl @ [Looked (Some (value_h x))]\<rparr>))"
| "client_step (Release_op i) cl =
     (if i < length (held cl)
      then (case LRUCacheImpl_Release (held cl ! i) (shard cl) of
              None \<Rightarrow> None
            | Some s' \<Rightarrow>
                Some \<lparr>shard = s', held = take i (held cl) @ drop (Suc i) (held cl),
                      events = events cl @ [Released]\<rparr>)
      else Some cl)"
| "client_step (Erase_op key h) cl =
     (case LRUCacheImpl_Erase key h (shard cl) of
        None \<Rightarrow> None
      | Some s' \<Rightarrow> Some \<lparr>shard = s', held = held cl, events = events cl @ [Erased]\<rparr>)"

fun client_run :: "op list \<Rightarrow> client \<Rightarrow> client option" where
  "client_run [] cl = Some cl"
| "client_run (x # xs) cl =
     (case client_step x cl of None \<Rightarrow> None | Some cl' \<Rightarrow> client_run xs cl')"

definition client_new :: "size_t \<Rightarrow> client option" where
  "client_new capacity =
     (case LRUCacheImpl_new capacity of
        None \<Rightarrow> None
      | Some s \<Rightarrow> Some \<lparr>shard = s, held = [], events = []\<rparr>)"

text \<open>
  The reference counts agree with a list of handles held: every handle points to an
  allocated entry, and the reference count of every allocated entry is the number of
  handles held on it, plus one when the entry is in the recency list.
\<close>

definition refs_ok :: "LRUCacheImpl \<Rightarrow> addr list \<Rightarrow> bool" where
  "refs_ok s hs \<longleftrightarrow>
     (\<forall>a \<in> set hs. mem s a \<noteq> None) \<and>
     (\<forall>a e. mem s a = Some e \<longrightarrow>
        unat (refs e) = (if a \<in> set (lru_c s) then 1 else 0) + count_list hs a)"

text \<open>
  The caller and the shard agree: the shard is well formed, its record of deleter calls
  is sound, and the reference counts agree with the handles the caller holds.
\<close>

definition client_inv :: "client \<Rightarrow> bool" where
  "client_inv cl \<longleftrightarrow>
     LRUCacheImpl_inv (shard cl) \<and> deleted_ok (shard cl) \<and> refs_ok (shard cl) (held cl)"

section \<open>Properties of the hash function\<close>

lemma drop_4_Cons: "drop (4 + k) (a # b # c # d # xs) = drop k xs"
  by (simp add: drop_Cons')

lemma Hash_loop_words:
  "Hash_loop data h =
     (drop (4 * (length data div 4)) data, foldl (mix_word 16) h (words_of data))"
proof (induction data h rule: Hash_loop.induct)
  case (1 b0 b1 b2 b3 data h)
  have "(4 + length data) div 4 = Suc (length data div 4)" by simp
  with 1 show ?case by (simp add: mix_word_def Let_def drop_4_Cons)
qed simp_all

lemma Hash_switch_tail:
  assumes "length t < 4"
  shows "Hash_switch sg t h =
     (if t = [] then h
      else (let x = (h + tail_sum sg 0 t) * Hash_m in x XOR drop_bit 24 x))"
proof -
  consider "t = []" | a where "t = [a]" | a b where "t = [a, b]" | a b c where "t = [a, b, c]"
    using assms by (cases t; cases "tl t"; cases "tl (tl t)"; cases "tl (tl (tl t))") auto
  then show ?thesis
    by cases (simp_all add: Hash_switch_def Hash_r_def Let_def add_ac)
qed

lemma ucast_64_32_mult: "(ucast ((x :: 64 word) * y) :: 32 word) = ucast x * ucast y"
proof -
  have "take_bit 32 (take_bit 64 (uint x * uint y))
        = take_bit 32 (take_bit 32 (uint x) * take_bit 32 (uint y))"
    by (simp add: take_bit_mult min_def)
  then show ?thesis
    by (simp add: word_eq_iff_unsigned[where ?'a = int] unsigned_ucast_eq
          uint_word_arith_bintrs uint_word_ariths take_bit_eq_mod)
qed

lemma ucast_64_32_of_nat: "(ucast (word_of_nat n :: 64 word) :: 32 word) = word_of_nat n"
  by (simp add: word_eq_iff_unsigned[where ?'a = nat] unsigned_ucast_eq unsigned_of_nat min_def)

lemma ucast_32_64_32: "(ucast (ucast (x :: 32 word) :: 64 word) :: 32 word) = x"
  by (simp add: word_eq_iff_unsigned[where ?'a = nat] unsigned_ucast_eq min_def
        take_bit_word_eq_self)

lemma Hash_initial_state:
  "(ucast ((ucast (seed :: uint32_t) :: size_t) XOR word_of_nat n * ucast Hash_m) :: uint32_t)
     = seed XOR (word_of_nat n * Hash_m)"
  by (simp add: unsigned_xor_eq ucast_64_32_mult ucast_64_32_of_nat ucast_32_64_32)

text \<open>
  C5, as the claim states it, fails: on the four bytes 1, 0, 0, 0 with seed 0 the source
  shifts the state right by 16 after the word, not by 24, and runs no final step when no
  byte trails; its result differs from the specified hash whether or not that one runs
  the final step on an empty tail.
\<close>

theorem Hash_word_shift_counterexample:
  "Hash True [1, 0, 0, 0] 0 \<noteq> Hash_spec 24 True True [1, 0, 0, 0] 0 \<and>
   Hash True [1, 0, 0, 0] 0 \<noteq> Hash_spec 24 False True [1, 0, 0, 0] 0"
  by (simp add: Hash_def Hash_switch_def Hash_spec_def mix_word_def DecodeFixed32_def
        char_int_def Hash_m_def Hash_r_def Let_def)

text \<open>
  C5, amended: for every byte string, seed and signedness of \<open>char\<close>, \<open>Hash\<close> starts
  from \<open>seed XOR (length * 0xc6a4a793)\<close> (in 32 bits), for each 4-byte little-endian
  word adds the word, multiplies by \<open>0xc6a4a793\<close> and XORs the state with itself
  shifted right by 16 bits, and, only when 1 to 3 bytes trail, adds them (the first
  trailing byte lowest, the next shifted left by 8, the third by 16), multiplies once more
  and XORs with the state shifted right by 24.
\<close>

theorem Hash_refines_spec:
  "Hash sg data seed = Hash_spec 16 False sg data seed"
proof -
  have "length (drop (4 * (length data div 4)) data) < 4"
    by simp
  then show ?thesis
    by (simp add: Hash_def Hash_spec_def Let_def Hash_initial_state Hash_loop_words
          Hash_switch_tail)
qed

theorem Hash_refines_spec_witness:
  "Hash True [1, 2, 3, 4, 0x80, 6, 0xff] 7 = 2743196646 \<and>
   Hash_spec 16 False True [1, 2, 3, 4, 0x80, 6, 0xff] 7 = 2743196646"
proof -
  have "Hash_spec 16 False True [1, 2, 3, 4, 0x80, 6, 0xff] 7 = 2743196646"
    by code_simp
  then show ?thesis
    using Hash_refines_spec [of True "[1, 2, 3, 4, 0x80, 6, 0xff]" 7] by simp
qed

section \<open>Properties of NewId\<close>

lemma Resize_new_length_4_0: "Resize_new_length 4 0 = Some 4"
  by (simp add: Resize_new_length.simps)

lemma HandleTable_new_eq:
  "HandleTable_new = Some \<lparr>length_t = 4, elems_t = 0, list_t = replicate 4 []\<rparr>"
  by (simp add: HandleTable_new_def HandleTable_Resize_def Resize_new_length_4_0)

lemma LRUCacheImpl_new_eq:
  "LRUCacheImpl_new capacity =
     Some \<lparr>capacity_c = capacity, usage_c = 0, lru_c = [],
           table_c = \<lparr>length_t = 4, elems_t = 0, list_t = replicate 4 []\<rparr>,
           mem = (\<lambda>a. None), brk = 0, deleted = []\<rparr>"
  by (simp add: LRUCacheImpl_new_def HandleTable_new_eq)

lemma ShardedLRUCache_new_last_id:
  "ShardedLRUCache_new capacity = Some c \<Longrightarrow> last_id_s c = 0"
  by (auto simp: ShardedLRUCache_new_def Let_def LRUCacheImpl_new_eq)

lemma ShardedLRUCache_new_Some: "\<exists>c. ShardedLRUCache_new capacity = Some c"
  by (simp add: ShardedLRUCache_new_def Let_def LRUCacheImpl_new_eq)

lemma NewId_calls_fst:
  "fst (NewId_calls n c) = map (\<lambda>i. last_id_s c + word_of_nat (Suc i)) [0..<n]"
proof (induction n arbitrary: c)
  case 0
  show ?case by simp
next
  case (Suc n)
  have "[0..<Suc n] = 0 # map Suc [0..<n]"
    by (simp add: upt_conv_Cons map_Suc_upt del: upt_Suc)
  then show ?case
    using Suc.IH[of "snd (NewId c)"]
    by (simp add: NewId_def Let_def split_beta comp_def add.assoc del: upt_Suc)
qed

lemma word_of_nat_upt_sorted:
  assumes "n < 2 ^ 64"
  shows "sorted_wrt (<) (map (\<lambda>i. word_of_nat (Suc i) :: uint64_t) [0..<n])"
proof -
  have "(word_of_nat (Suc i) :: uint64_t) < word_of_nat (Suc j)" if "i < j" "j < n" for i j
  proof -
    have "Suc i < 2 ^ 64" "Suc j < 2 ^ 64" using that assms by simp_all
    then have "unat (word_of_nat (Suc i) :: uint64_t) = Suc i"
      and "unat (word_of_nat (Suc j) :: uint64_t) = Suc j"
      by (simp_all add: unsigned_of_nat take_bit_nat_eq_self del: of_nat_Suc)
    then show ?thesis using that by (simp add: word_less_nat_alt del: of_nat_Suc)
  qed
  then show ?thesis
    by (simp add: sorted_wrt_map sorted_wrt_iff_nth_less del: of_nat_Suc)
qed

lemma NewId_calls_nth:
  "i < n \<Longrightarrow> fst (NewId_calls n c) ! i = last_id_s c + word_of_nat (Suc i)"
  by (simp add: NewId_calls_fst del: of_nat_Suc upt_Suc)

text \<open>
  C8, as the claim states it, fails: the counter is a \<open>uint64_t\<close>, so in a run of
  \<open>2 ^ 64\<close> calls on a new cache the last call returns 0, which is not greater than
  the value the call before it returned.
\<close>

theorem NewId_wraps_counterexample:
  "\<not> (fst (NewId_calls (2 ^ 64) (the (ShardedLRUCache_new 0))) ! (2 ^ 64 - 2)
      < fst (NewId_calls (2 ^ 64) (the (ShardedLRUCache_new 0))) ! (2 ^ 64 - 1))"
proof -
  obtain c where c: "ShardedLRUCache_new 0 = Some c"
    using ShardedLRUCache_new_Some by blast
  have z: "last_id_s c = 0"
    using c by (rule ShardedLRUCache_new_last_id)
  have a: "fst (NewId_calls (2 ^ 64) c) ! (2 ^ 64 - 1) = last_id_s c + word_of_nat (Suc (2 ^ 64 - 1))"
    by (rule NewId_calls_nth) simp
  have b: "(word_of_nat (Suc (2 ^ 64 - 1)) :: uint64_t) = 0"
    by simp
  show ?thesis
    unfolding c option.sel a z b by simp
qed

text \<open>
  C8, amended: on a new cache the counter is 0, and for every run of fewer than
  \<open>2 ^ 64\<close> calls of \<open>NewId\<close> the calls return 1, 2, 3 and so on in this order:
  the first call returns 1, every call returns a value strictly greater than the call
  before it, and the values are pairwise distinct.
\<close>

theorem NewId_strictly_increasing:
  assumes "n < 2 ^ 64" and "ShardedLRUCache_new capacity = Some c"
  shows "last_id_s c = 0 \<and>
         fst (NewId_calls n c) = map word_of_nat [1..<Suc n] \<and>
         sorted_wrt (<) (fst (NewId_calls n c)) \<and>
         distinct (fst (NewId_calls n c))"
proof -
  have z: "last_id_s c = 0"
    using assms(2) by (rule ShardedLRUCache_new_last_id)
  have ids: "fst (NewId_calls n c) = map (\<lambda>i. word_of_nat (Suc i)) [0..<n]"
    by (simp add: NewId_calls_fst z del: of_nat_Suc upt_Suc)
  have m: "map (\<lambda>i. word_of_nat (Suc i) :: uint64_t) [0..<n] = map word_of_nat [1..<Suc n]"
    by (simp add: map_Suc_upt[symmetric] del: of_nat_Suc upt_Suc)
  have s: "sorted_wrt (<) (fst (NewId_calls n c))"
    unfolding ids using assms(1) by (rule word_of_nat_upt_sorted)
  have "distinct (fst (NewId_calls n c))"
    using s by (simp add: strict_sorted_iff)
  with z ids m s show ?thesis by simp
qed

theorem NewId_strictly_increasing_witness:
  "(3 :: nat) < 2 ^ 64 \<and>
   fst (NewId_calls 3 (the (ShardedLRUCache_new 1000))) = [1, 2, 3] \<and>
   sorted_wrt (<) (fst (NewId_calls 3 (the (ShardedLRUCache_new 1000)))) \<and>
   distinct (fst (NewId_calls 3 (the (ShardedLRUCache_new 1000))))"
proof -
  obtain c where c: "ShardedLRUCache_new 1000 = Some c"
    using ShardedLRUCache_new_Some by blast
  have n: "(3 :: nat) < 2 ^ 64" by simp
  have "map word_of_nat [1..<Suc 3] = [1, 2, 3 :: uint64_t]"
    by (simp add: upt_conv_Cons)
  then show ?thesis
    using NewId_strictly_increasing [OF n c] unfolding c option.sel by simp
qed


end
